theory Spec2Isabelle
  imports Complex_Main "HOL-Library.Multiset"
begin

section \<open>Return periods of annual rainfall totals (gumbel.py)\<close>

text \<open>
  The program computes with NumPy doubles. Each formula is given here with its exact value
  over the reals; a result that NumPy or SciPy reports as not finite (\<open>nan\<close>, \<open>inf\<close>)
  is \<open>None\<close>. The structure of the analysis is stated on these exact values. Where a
  property depends on rounding, the formula is given a second time as it is computed in
  binary64 (the definitions with the suffix \<open>_f64\<close>), and the two are compared.
\<close>

subsection \<open>NumPy operations used by the analysis\<close>

definition np_mean :: "real list \<Rightarrow> real option" where
  \<comment> \<open>\<open>np.mean(a)\<close>: the mean of the empty array is \<open>nan\<close>.\<close>
  "np_mean a = (if a = [] then None else Some (sum_list a / real (length a)))"

definition np_std :: "nat \<Rightarrow> real list \<Rightarrow> real option" where
  \<comment> \<open>\<open>np.std(a, ddof=d)\<close>: the squared deviations from the mean are summed and divided by
      \<open>max (n - d) 0\<close>; a zero divisor gives a value that is not finite.\<close>
  "np_std ddof a =
     (if length a \<le> ddof then None
      else Some (sqrt (sum_list (map (\<lambda>x. (x - sum_list a / real (length a))\<^sup>2) a)
                        / real (length a - ddof))))"

definition np_sort :: "real list \<Rightarrow> real list" where
  \<comment> \<open>\<open>np.sort(a)\<close>: the contents of a new array, ascending.\<close>
  "np_sort a = sort a"

definition np_arange :: "nat \<Rightarrow> nat \<Rightarrow> int list" where
  \<comment> \<open>\<open>np.arange(lo, hi)\<close> on integers.\<close>
  "np_arange lo hi = map int [lo..<hi]"

subsection \<open>Empirical ranking (lines 49 to 53)\<close>

definition totais_ordenados :: "real list \<Rightarrow> real list" where
  \<comment> \<open>\<open>np.sort(totais_anuais)[::-1]\<close>\<close>
  "totais_ordenados totais_anuais = rev (np_sort totais_anuais)"

definition rank_m :: "nat \<Rightarrow> int list" where
  \<comment> \<open>\<open>m = np.arange(1, n + 1)\<close>\<close>
  "rank_m n = np_arange 1 (n + 1)"

definition prob_P :: "nat \<Rightarrow> real list" where
  \<comment> \<open>\<open>P = m / (n + 1)\<close>, element by element\<close>
  "prob_P n = map (\<lambda>m. real_of_int m / real (n + 1)) (rank_m n)"

definition T_empirico :: "nat \<Rightarrow> real list" where
  \<comment> \<open>\<open>T_empirico = 1 / P\<close>, element by element\<close>
  "T_empirico n = map (\<lambda>p. 1 / p) (prob_P n)"

definition pontos_empiricos :: "real list \<Rightarrow> (real \<times> real) list" where
  \<comment> \<open>the points \<open>(T_empirico, totais_ordenados)\<close> handed to \<open>plt.scatter\<close> (line 66)\<close>
  "pontos_empiricos totais_anuais =
     zip (T_empirico (length totais_anuais)) (totais_ordenados totais_anuais)"

subsection \<open>Gumbel fit and recurrence estimates (lines 55 to 62)\<close>

record parametros =
  loc :: real
  scale :: real

datatype erro = ErroAjuste

text \<open>
  \<open>gumbel_r.fit\<close> is SciPy's maximum-likelihood root finder. It is not code of the program,
  so the analysis takes it as a parameter: on an array it either raises or returns the
  two fitted parameters.
\<close>

type_synonym ajuste = "real list \<Rightarrow> erro + parametros"

definition gumbel_r_ppf :: "real \<Rightarrow> real \<Rightarrow> real \<Rightarrow> real option" where
  \<comment> \<open>\<open>gumbel_r.ppf(q, loc=loc, scale=scale)\<close>: SciPy evaluates \<open>-log(-log(q))\<close>, scales it
      and shifts it; \<open>nan\<close> for a scale that is not positive or \<open>q\<close> outside \<open>[0, 1]\<close>,
      infinite at \<open>q = 0\<close> and \<open>q = 1\<close>.\<close>
  "gumbel_r_ppf q lc sc =
     (if 0 < sc \<and> 0 < q \<and> q < 1 then Some (lc + sc * (- ln (- ln q))) else None)"


definition T_alvo :: "int list" where
  "T_alvo = [2, 5, 10, 25, 50, 100, 1000, 10000]"

definition P_alvo :: "real list" where
  \<comment> \<open>\<open>P_alvo = 1 / T_alvo\<close>, element by element\<close>
  "P_alvo = map (\<lambda>t. 1 / real_of_int t) T_alvo"

definition Q_T :: "parametros \<Rightarrow> real option list" where
  \<comment> \<open>\<open>Q_T = gumbel_r.ppf(1 - P_alvo, loc=loc, scale=scale)\<close>\<close>
  "Q_T p = map (\<lambda>q. gumbel_r_ppf q (loc p) (scale p)) (map (\<lambda>pa. 1 - pa) P_alvo)"

subsection \<open>Arrays as heap objects\<close>

text \<open>
  The caller hands the analysis a reference to an array (in the export step, the buffer of
  the column \<open>Total Anual (mm)\<close> of the summary). The heap is the list of the array
  objects allocated so far; a reference is a position in it.
\<close>

type_synonym ref = nat
type_synonym heap = "real list list"

definition heap_alloc :: "real list \<Rightarrow> heap \<Rightarrow> ref \<times> heap" where
  "heap_alloc a h = (length h, h @ [a])"

definition np_sort_ref :: "ref \<Rightarrow> heap \<Rightarrow> ref \<times> heap" where
  \<comment> \<open>\<open>np.sort(a)\<close> returns a sorted copy: a new array object, the argument is only read.\<close>
  "np_sort_ref r h = heap_alloc (np_sort (h ! r)) h"

subsection \<open>The analysis (lines 36 to 97)\<close>

record resultados =
  media :: "real option"
  desvio_padrao :: "real option"
  n_amostras :: nat
  parametros_gumbel :: parametros
  tempos_recorrencia :: "int list"
  totais_estimados :: "real option list"
  totais_observados :: ref

text \<open>
  The printing and the two figures are left out. Of the arrays the function creates, the
  heap records the one that is made from the input, the sorted copy (the reversed array
  \<open>[::-1]\<close> is a view of it); the ranks, probabilities, targets and estimates are new
  values that nothing else refers to and are kept as plain lists. An exception of the fit
  leaves the function at line 56, after the copy was made.
\<close>

definition analise_recorrencia :: "ajuste \<Rightarrow> ref \<Rightarrow> heap \<Rightarrow> (erro + resultados) \<times> heap" where
  "analise_recorrencia gumbel_r_fit totais_anuais h =
     (let md = np_mean (h ! totais_anuais);
          dp = np_std 1 (h ! totais_anuais);
          n = length (h ! totais_anuais);
          (copia, h') = np_sort_ref totais_anuais h
      in case gumbel_r_fit (h' ! totais_anuais) of
           Inl e \<Rightarrow> (Inl e, h')
         | Inr p \<Rightarrow>
             (Inr \<lparr>media = md, desvio_padrao = dp, n_amostras = n,
                   parametros_gumbel = p, tempos_recorrencia = T_alvo,
                   totais_estimados = Q_T p, totais_observados = totais_anuais\<rparr>, h'))"

subsection \<open>Annual aggregation (lines 116 to 124)\<close>

record data =
  ano :: int
  mes :: nat
  dia :: nat

record observacao =
  Data :: "data option"
  Total :: "real option"

text \<open>
  A row of the sheet after \<open>pd.to_datetime\<close>: a date that is missing is \<open>NaT\<close>, a total
  that is missing is \<open>nan\<close>; both are \<open>None\<close>.
\<close>

definition Ano :: "observacao \<Rightarrow> int option" where
  \<comment> \<open>\<open>dados['Ano'] = pd.to_datetime(dados['Data']).dt.year\<close>\<close>
  "Ano ob = map_option ano (Data ob)"

definition chaves :: "observacao list \<Rightarrow> int list" where
  \<comment> \<open>the group keys of \<open>groupby('Ano')\<close>: rows without a year are dropped, the keys are
      sorted\<close>
  "chaves dados = sort (remdups (List.map_filter Ano dados))"

definition grupo :: "observacao list \<Rightarrow> int \<Rightarrow> real list" where
  \<comment> \<open>the totals of one year that the aggregations see: \<open>sum\<close>, \<open>max\<close> and \<open>count\<close> skip
      missing values\<close>
  "grupo dados a = List.map_filter Total (filter (\<lambda>ob. Ano ob = Some a) dados)"

definition agg_max :: "real list \<Rightarrow> real option" where
  \<comment> \<open>\<open>max\<close> of a group; \<open>nan\<close> when every value of the group is missing\<close>
  "agg_max vs = (case vs of [] \<Rightarrow> None | v # ws \<Rightarrow> Some (fold max ws v))"

record registro_anual =
  Ano_r :: int
  Total_Anual :: real
  Chuva_Maxima :: "real option"
  Meses_com_Dados :: nat

definition resumo_anual :: "observacao list \<Rightarrow> registro_anual list" where
  \<comment> \<open>\<open>dados_filtrados.groupby('Ano').agg({'Total': ['sum', 'max', 'count']})\<close>, columns
      renamed, index reset\<close>
  "resumo_anual dados_filtrados =
     map (\<lambda>a. \<lparr>Ano_r = a,
               Total_Anual = sum_list (grupo dados_filtrados a),
               Chuva_Maxima = agg_max (grupo dados_filtrados a),
               Meses_com_Dados = length (grupo dados_filtrados a)\<rparr>)
       (chaves dados_filtrados)"

definition totais_anuais_de :: "registro_anual list \<Rightarrow> real list" where
  \<comment> \<open>\<open>resumo['Total Anual (mm)'].values\<close>, the argument of the analysis at line 127\<close>
  "totais_anuais_de resumo = map Total_Anual resumo"

subsection \<open>The empirical column of the export step (line 154)\<close>

definition T_empirico_export :: "registro_anual list \<Rightarrow> real list" where
  \<comment> \<open>\<open>1 / np.arange(1, len(resumo) + 1) * (len(resumo) + 1)\<close>: the division first,
      then the product\<close>
  "T_empirico_export resumo =
     map (\<lambda>m. 1 / real_of_int m * real (length resumo + 1))
       (np_arange 1 (length resumo + 1))"

subsection \<open>Double precision\<close>

text \<open>
  IEEE 754 binary64 with rounding to nearest, ties to even. A finite double is the real it
  denotes, and \<open>None\<close> is a result that is not finite. The exponent of a value is the one
  of its binade, and not below the smallest normal exponent, so that subnormal results
  are rounded to multiples of \<open>2^-1074\<close>; a rounded magnitude of \<open>2^1024\<close> overflows.
\<close>

definition pow2 :: "int \<Rightarrow> real" where
  "pow2 e = (if 0 \<le> e then 2 ^ nat e else 1 / 2 ^ nat (- e))"

definition expoente :: "real \<Rightarrow> int" where
  "expoente x = max (- 1022) \<lfloor>log 2 \<bar>x\<bar>\<rfloor>"

definition ulp :: "real \<Rightarrow> real" where
  \<comment> \<open>the spacing of the doubles around \<open>x\<close>: 52 fraction bits\<close>
  "ulp x = pow2 (expoente x - 52)"

definition round_even :: "real \<Rightarrow> int" where
  \<comment> \<open>the nearest integer, the even one at a tie\<close>
  "round_even y =
     (if y - of_int \<lfloor>y\<rfloor> < 1 / 2 then \<lfloor>y\<rfloor>
      else if 1 / 2 < y - of_int \<lfloor>y\<rfloor> then \<lfloor>y\<rfloor> + 1
      else if even \<lfloor>y\<rfloor> then \<lfloor>y\<rfloor> else \<lfloor>y\<rfloor> + 1)"

definition f64 :: "real \<Rightarrow> real option" where
  \<comment> \<open>the double that an operation with the exact result \<open>x\<close> returns\<close>
  "f64 x =
     (if \<bar>of_int (round_even (x / ulp x)) * ulp x\<bar> < 2 ^ 1024
      then Some (of_int (round_even (x / ulp x)) * ulp x) else None)"

definition f64_div :: "real \<Rightarrow> real \<Rightarrow> real option" where
  \<comment> \<open>the quotient of two finite doubles; a zero divisor gives \<open>inf\<close> or \<open>nan\<close>\<close>
  "f64_div a b = (if b = 0 then None else f64 (a / b))"



text \<open>
  The ranks and the sample size are integers below \<open>2^53\<close>, so their conversion to doubles
  is exact. Line 52 is one division, line 53 a second one; line 154 is a division followed
  by a product.
\<close>

definition prob_P_f64 :: "nat \<Rightarrow> real option list" where
  \<comment> \<open>\<open>P = m / (n + 1)\<close> as computed\<close>
  "prob_P_f64 n = map (\<lambda>m. f64_div (real_of_int m) (real (n + 1))) (rank_m n)"

definition T_empirico_f64 :: "nat \<Rightarrow> real option list" where
  \<comment> \<open>\<open>T_empirico = 1 / P\<close> as computed\<close>
  "T_empirico_f64 n = map (\<lambda>p. Option.bind p (\<lambda>v. f64_div 1 v)) (prob_P_f64 n)"

definition T_empirico_export_f64 :: "registro_anual list \<Rightarrow> real option list" where
  \<comment> \<open>\<open>1 / np.arange(1, len(resumo) + 1) * (len(resumo) + 1)\<close> as computed\<close>
  "T_empirico_export_f64 resumo =
     map (\<lambda>m. Option.bind (f64_div 1 (real_of_int m))
                 (\<lambda>v. f64 (v * real (length resumo + 1))))
       (np_arange 1 (length resumo + 1))"





subsection \<open>A concrete run\<close>

text \<open>
  A fit that answers with fixed parameters, and the result the analysis then builds for
  three annual totals of mean 200 and sample deviation 100. They serve as the concrete
  inputs at which the results below are instantiated.
\<close>

definition ajuste_exemplo :: ajuste where
  "ajuste_exemplo a = Inr \<lparr>loc = 1000, scale = 100\<rparr>"

definition resultado_exemplo :: resultados where
  "resultado_exemplo =
     \<lparr>media = Some 200, desvio_padrao = Some 100, n_amostras = 3,
      parametros_gumbel = \<lparr>loc = 1000, scale = 100\<rparr>, tempos_recorrencia = T_alvo,
      totais_estimados = Q_T \<lparr>loc = 1000, scale = 100\<rparr>, totais_observados = 0\<rparr>"

text \<open>
  The results of the analysis on one annual total and on two equal ones, when the fit
  answers with the parameters above; a summary of four years; and parameters whose
  location is large against the scale.
\<close>

definition resultado_n1 :: resultados where
  "resultado_n1 =
     \<lparr>media = Some 150, desvio_padrao = None, n_amostras = 1,
      parametros_gumbel = \<lparr>loc = 1000, scale = 100\<rparr>, tempos_recorrencia = T_alvo,
      totais_estimados = Q_T \<lparr>loc = 1000, scale = 100\<rparr>, totais_observados = 0\<rparr>"

definition resultado_iguais :: resultados where
  "resultado_iguais =
     \<lparr>media = Some 150, desvio_padrao = Some 0, n_amostras = 2,
      parametros_gumbel = \<lparr>loc = 1000, scale = 100\<rparr>, tempos_recorrencia = T_alvo,
      totais_estimados = Q_T \<lparr>loc = 1000, scale = 100\<rparr>, totais_observados = 0\<rparr>"

definition resumo_4_anos :: "registro_anual list" where
  "resumo_4_anos =
     [\<lparr>Ano_r = 2020, Total_Anual = 1000, Chuva_Maxima = Some 200, Meses_com_Dados = 12\<rparr>,
      \<lparr>Ano_r = 2021, Total_Anual = 1200, Chuva_Maxima = Some 250, Meses_com_Dados = 12\<rparr>,
      \<lparr>Ano_r = 2022, Total_Anual = 900, Chuva_Maxima = Some 180, Meses_com_Dados = 12\<rparr>,
      \<lparr>Ano_r = 2023, Total_Anual = 1500, Chuva_Maxima = Some 300, Meses_com_Dados = 12\<rparr>]"


section \<open>Properties\<close>

subsection \<open>Helper facts on the ranking\<close>

lemma length_prob_P: "length (prob_P n) = n"
  by (simp add: prob_P_def rank_m_def np_arange_def del: upt_Suc)

lemma nth_prob_P: "i < n \<Longrightarrow> prob_P n ! i = real (i + 1) / real (n + 1)"
  by (simp add: prob_P_def rank_m_def np_arange_def add.commute del: upt_Suc)

lemma length_T_empirico: "length (T_empirico n) = n"
  by (simp add: T_empirico_def length_prob_P)

lemma nth_T_empirico: "i < n \<Longrightarrow> T_empirico n ! i = real (n + 1) / real (i + 1)"
  by (simp add: T_empirico_def length_prob_P nth_prob_P)

lemma T_empirico_decreasing: "sorted_wrt (\<lambda>a b. b < a) (T_empirico n)"
proof -
  have "T_empirico n ! j < T_empirico n ! i" if "i < j" "j < n" for i j
  proof -
    have "real (n + 1) / real (j + 1) < real (n + 1) / real (i + 1)"
      using that by (intro divide_strict_left_mono) simp_all
    then show ?thesis
      using that by (simp add: nth_T_empirico)
  qed
  then show ?thesis
    by (simp add: sorted_wrt_iff_nth_less length_T_empirico)
qed

lemma totais_ordenados_descending: "sorted_wrt (\<lambda>a b. b \<le> a) (totais_ordenados xs)"
proof -
  have "sorted (rev (totais_ordenados xs))"
    by (simp add: totais_ordenados_def np_sort_def)
  then show ?thesis
    by (simp add: sorted_wrt_rev)
qed

lemma length_totais_ordenados: "length (totais_ordenados xs) = length xs"
  by (simp add: totais_ordenados_def np_sort_def)

lemma T_empirico_closed:
  "T_empirico n = map (\<lambda>m. 1 / (real m / real (n + 1))) [1..<n + 1]"
  by (simp add: T_empirico_def prob_P_def rank_m_def np_arange_def del: upt_Suc)

subsection \<open>Helper facts on the recurrence estimates\<close>







subsection \<open>Helper facts on the analysis\<close>

lemma analise_recorrencia_heap:
  "snd (analise_recorrencia fit r h) = h @ [np_sort (h ! r)]"
  by (simp add: analise_recorrencia_def np_sort_ref_def heap_alloc_def split: sum.split)

lemma analise_recorrencia_Inr:
  assumes "r < length h" "analise_recorrencia fit r h = (Inr res, h')"
  shows "fit (h ! r) = Inr (parametros_gumbel res)"
    and "media res = np_mean (h ! r)"
    and "desvio_padrao res = np_std 1 (h ! r)"
    and "n_amostras res = length (h ! r)"
    and "tempos_recorrencia res = T_alvo"
    and "totais_estimados res = Q_T (parametros_gumbel res)"
    and "totais_observados res = r"
  using assms
  by (auto simp: analise_recorrencia_def np_sort_ref_def heap_alloc_def nth_append
           split: sum.splits)

text \<open>
  The analysis has no check of its own on the sample: it fails exactly when the fit
  raises, and then with the exception of the fit.
\<close>

lemma analise_recorrencia_Inl:
  assumes "r < length h"
  shows "fst (analise_recorrencia fit r h) = Inl e \<longleftrightarrow> fit (h ! r) = Inl e"
  using assms
  by (auto simp: analise_recorrencia_def np_sort_ref_def heap_alloc_def nth_append
           split: sum.splits)

lemma sqrt_10000: "sqrt (10000::real) = 100"
proof -
  have "sqrt (10000::real) = sqrt (100\<^sup>2)" by simp
  then show ?thesis by (simp only: real_sqrt_abs)
qed

lemma analise_exemplo:
  "analise_recorrencia ajuste_exemplo 0 [[100, 200, 300]] =
     (Inr resultado_exemplo, [[100, 200, 300], [100, 200, 300]])"
  by (simp add: analise_recorrencia_def np_sort_ref_def heap_alloc_def np_mean_def
        np_std_def np_sort_def sqrt_10000 ajuste_exemplo_def resultado_exemplo_def)

lemma analise_exemplo_desordenado:
  "analise_recorrencia ajuste_exemplo 0 [[300, 100, 200]] =
     (Inr resultado_exemplo, [[300, 100, 200], [100, 200, 300]])"
  by (simp add: analise_recorrencia_def np_sort_ref_def heap_alloc_def np_mean_def
        np_std_def np_sort_def sqrt_10000 ajuste_exemplo_def resultado_exemplo_def)

lemma exemplo_ref:
  "(0::nat) < length [[100, 200, 300::real]]" "(0::nat) < length [[300, 100, 200::real]]"
  by simp_all

subsection \<open>Helper facts on rounding\<close>

lemma pow2_powr: "pow2 e = 2 powr (real_of_int e)"
  by (simp add: pow2_def powr_int)

lemma pow2_pos: "0 < pow2 e"
  by (simp add: pow2_def)

lemma expoente_eqI:
  assumes "pow2 e \<le> \<bar>x\<bar>" "\<bar>x\<bar> < pow2 (e + 1)" "- 1022 \<le> e"
  shows "expoente x = e"
proof -
  have pos: "0 < \<bar>x\<bar>" using assms(1) pow2_pos [of e] by linarith
  have "\<lfloor>log 2 \<bar>x\<bar>\<rfloor> = e"
    using assms(1,2) pos by (simp add: floor_log_eq_powr_iff pow2_powr)
  then show ?thesis using assms(3) by (simp add: expoente_def)
qed

lemma f64_eval:
  assumes "pow2 e \<le> \<bar>x\<bar>" "\<bar>x\<bar> < pow2 (e + 1)" "- 1022 \<le> e"
    "\<bar>of_int (round_even (x / pow2 (e - 52))) * pow2 (e - 52)\<bar> < 2 ^ 1024"
  shows "f64 x = Some (of_int (round_even (x / pow2 (e - 52))) * pow2 (e - 52))"
  using assms(4) by (simp add: f64_def ulp_def expoente_eqI [OF assms(1,2,3)])












subsection \<open>Helper facts on the computed columns and estimates\<close>

lemma f64_3_5: "f64 (3 / 5) = Some (5404319552844595 / 2 ^ 53)"
  by (rule f64_eval [where e = "- 1", THEN trans]) (simp_all add: pow2_def round_even_def)

lemma f64_inv_3_5: "f64 (1 / (5404319552844595 / 2 ^ 53)) = Some (7505999378950827 / 2 ^ 52)"
  by (rule f64_eval [where e = 0, THEN trans]) (simp_all add: pow2_def round_even_def)

lemma f64_1_3: "f64 (1 / 3) = Some (6004799503160661 / 2 ^ 54)"
  by (rule f64_eval [where e = "- 2", THEN trans]) (simp_all add: pow2_def round_even_def)

lemma f64_1_3_times_5: "f64 (6004799503160661 / 2 ^ 54 * 5) = Some (7505999378950826 / 2 ^ 52)"
  by (rule f64_eval [where e = 0, THEN trans]) (simp_all add: pow2_def round_even_def)





lemma f64_div_3_5: "f64_div 3 5 = Some (5404319552844595 / 2 ^ 53)"
  unfolding f64_div_def using f64_3_5 by simp

lemma f64_div_inv_3_5:
  "f64_div 1 (5404319552844595 / 2 ^ 53) = Some (7505999378950827 / 2 ^ 52)"
  unfolding f64_div_def using f64_inv_3_5 by simp

lemma f64_div_1_3: "f64_div 1 3 = Some (6004799503160661 / 2 ^ 54)"
  unfolding f64_div_def using f64_1_3 by simp



lemma T_empirico_f64_4_3: "T_empirico_f64 4 ! 2 = Some (7505999378950827 / 2 ^ 52)"
proof -
  have "rank_m 4 = [1, 2, 3, 4]"
    by (simp add: rank_m_def np_arange_def upt_rec)
  then have "T_empirico_f64 4 ! 2 = Option.bind (f64_div 3 5) (\<lambda>v. f64_div 1 v)"
    by (simp add: T_empirico_f64_def prob_P_f64_def)
  also have "\<dots> = Some (7505999378950827 / 2 ^ 52)"
    by (simp only: f64_div_3_5 f64_div_inv_3_5 Option.bind.simps)
  finally show ?thesis .
qed

lemma T_empirico_export_f64_4_3:
  "T_empirico_export_f64 resumo_4_anos ! 2 = Some (7505999378950826 / 2 ^ 52)"
proof -
  have l: "length resumo_4_anos = 4" by (simp add: resumo_4_anos_def)
  have "np_arange 1 5 = [1, 2, 3, 4]"
    by (simp add: np_arange_def upt_rec)
  then have "T_empirico_export_f64 resumo_4_anos ! 2 =
      Option.bind (f64_div 1 3) (\<lambda>v. f64 (v * 5))"
    by (simp add: T_empirico_export_f64_def l)
  also have "\<dots> = Some (7505999378950826 / 2 ^ 52)"
    by (simp only: f64_div_1_3 f64_1_3_times_5 Option.bind.simps)
  finally show ?thesis .
qed





subsection \<open>The analysis on degenerate samples\<close>

lemma analise_n1:
  "analise_recorrencia ajuste_exemplo 0 [[150]] = (Inr resultado_n1, [[150], [150]])"
  by (simp add: analise_recorrencia_def np_sort_ref_def heap_alloc_def np_mean_def
        np_std_def np_sort_def ajuste_exemplo_def resultado_n1_def)

lemma analise_iguais:
  "analise_recorrencia ajuste_exemplo 0 [[150, 150]] =
     (Inr resultado_iguais, [[150, 150], [150, 150]])"
  by (simp add: analise_recorrencia_def np_sort_ref_def heap_alloc_def np_mean_def
        np_std_def np_sort_def ajuste_exemplo_def resultado_iguais_def)

text \<open>
  C1. The analysis has no check of its own on the sample. For every input array, and so
  for \<open>[150.0]\<close> (where the sample deviation is \<open>nan\<close>) and \<open>[150.0, 150.0]\<close> (where it
  is 0), it fails exactly when the fit raises, with the exception of the fit, and when the
  fit returns parameters it returns a result holding them and the deviation it computed.
  With a fit that returns parameters on these two inputs the analysis returns a result.
\<close>

theorem analise_recorrencia_sem_guarda:
  assumes "r < length h"
  shows "(fst (analise_recorrencia fit r h) = Inl e \<longleftrightarrow> fit (h ! r) = Inl e) \<and>
         (fit (h ! r) = Inr p \<longrightarrow>
            (\<exists>res. fst (analise_recorrencia fit r h) = Inr res \<and>
                   parametros_gumbel res = p \<and>
                   desvio_padrao res = np_std 1 (h ! r))) \<and>
         np_std 1 [150] = None \<and> np_std 1 [150, 150] = Some 0"
proof -
  have l: "fst (analise_recorrencia fit r h) = Inl e \<longleftrightarrow> fit (h ! r) = Inl e"
    using assms by (rule analise_recorrencia_Inl)
  have "\<exists>res. fst (analise_recorrencia fit r h) = Inr res \<and> parametros_gumbel res = p \<and>
      desvio_padrao res = np_std 1 (h ! r)"
    if f: "fit (h ! r) = Inr p"
  proof -
    obtain out h' where o: "analise_recorrencia fit r h = (out, h')"
      by (cases "analise_recorrencia fit r h")
    have "out \<noteq> Inl e'" for e'
      using analise_recorrencia_Inl [OF assms, of fit e'] o f by auto
    then obtain res where res: "out = Inr res" by (cases out) auto
    have "parametros_gumbel res = p"
      using analise_recorrencia_Inr(1) [OF assms o [unfolded res]] f by simp
    moreover have "desvio_padrao res = np_std 1 (h ! r)"
      using analise_recorrencia_Inr(3) [OF assms o [unfolded res]] .
    ultimately show ?thesis using o res by simp
  qed
  moreover have "np_std 1 [150] = None" "np_std 1 [150, 150] = Some 0"
    by (simp_all add: np_std_def)
  ultimately show ?thesis using l by blast
qed

theorem analise_recorrencia_sem_guarda_witness:
  "(0::nat) < length [[150::real]] \<and>
   ajuste_exemplo ([[150]] ! 0) = Inr \<lparr>loc = 1000, scale = 100\<rparr> \<and>
   fst (analise_recorrencia ajuste_exemplo 0 [[150]]) \<noteq> Inl ErroAjuste \<and>
   parametros_gumbel (projr (fst (analise_recorrencia ajuste_exemplo 0 [[150]])))
     = \<lparr>loc = 1000, scale = 100\<rparr> \<and>
   desvio_padrao (projr (fst (analise_recorrencia ajuste_exemplo 0 [[150]]))) = None"
proof -
  have a: "(0::nat) < length [[150::real]]" by simp
  have c: "ajuste_exemplo ([[150]] ! 0) = Inr \<lparr>loc = 1000, scale = 100\<rparr>"
    by (simp add: ajuste_exemplo_def)
  have d: "np_std 1 ([[150]] ! 0) = None" by (simp add: np_std_def)
  from analise_recorrencia_sem_guarda
    [OF a, of ajuste_exemplo ErroAjuste "\<lparr>loc = 1000, scale = 100\<rparr>"] c d
  show ?thesis by auto
qed

theorem analise_recorrencia_retorna_em_amostra_degenerada:
  "fst (analise_recorrencia ajuste_exemplo 0 [[150]]) = Inr resultado_n1 \<and>
   fst (analise_recorrencia ajuste_exemplo 0 [[150, 150]]) = Inr resultado_iguais \<and>
   fst (analise_recorrencia ajuste_exemplo 0 [[150]]) \<noteq> Inl ErroAjuste \<and>
   fst (analise_recorrencia ajuste_exemplo 0 [[150, 150]]) \<noteq> Inl ErroAjuste"
  by (simp add: analise_n1 analise_iguais)

subsection \<open>Recurrence estimates\<close>

text \<open>
  C2. Whenever the analysis returns, the parameters in its result are the ones the fit
  produced, the return periods are the canonical targets 2, 5, 10, 25, 50, 100, 1000, 10000
  in ascending order, and the estimated totals are, position by position, the Gumbel
  quantile function at probability \<open>1 - 1/T\<close> of each target \<open>T\<close>: one estimate per
  target, in the order of the targets.
\<close>

theorem analise_recorrencia_totais_estimados:
  assumes "r < length h" "analise_recorrencia fit r h = (Inr res, h')"
  shows "fit (h ! r) = Inr (parametros_gumbel res) \<and>
         tempos_recorrencia res = [2, 5, 10, 25, 50, 100, 1000, 10000] \<and>
         sorted_wrt (<) (tempos_recorrencia res) \<and>
         length (totais_estimados res) = length (tempos_recorrencia res) \<and>
         totais_estimados res =
           map (\<lambda>T. gumbel_r_ppf (1 - 1 / real_of_int T)
                      (loc (parametros_gumbel res)) (scale (parametros_gumbel res)))
             (tempos_recorrencia res)"
proof -
  have q: "Q_T p = map (\<lambda>T. gumbel_r_ppf (1 - 1 / real_of_int T) (loc p) (scale p)) T_alvo" for p
    by (simp add: Q_T_def P_alvo_def)
  have s: "sorted_wrt (<) T_alvo" by (simp add: T_alvo_def)
  have t: "T_alvo = [2, 5, 10, 25, 50, 100, 1000, 10000]" by (simp add: T_alvo_def)
  have l: "length (Q_T p) = length T_alvo" for p by (simp add: Q_T_def P_alvo_def)
  show ?thesis
    unfolding analise_recorrencia_Inr(5,6) [OF assms]
    using analise_recorrencia_Inr(1) [OF assms] q s t l by blast
qed

theorem analise_recorrencia_totais_estimados_witness:
  "analise_recorrencia ajuste_exemplo 0 [[100, 200, 300]] =
     (Inr resultado_exemplo, [[100, 200, 300], [100, 200, 300]]) \<and>
   ajuste_exemplo ([[100, 200, 300]] ! 0) = Inr (parametros_gumbel resultado_exemplo) \<and>
   tempos_recorrencia resultado_exemplo = [2, 5, 10, 25, 50, 100, 1000, 10000] \<and>
   sorted_wrt (<) (tempos_recorrencia resultado_exemplo) \<and>
   length (totais_estimados resultado_exemplo) = length (tempos_recorrencia resultado_exemplo) \<and>
   totais_estimados resultado_exemplo =
     map (\<lambda>T. gumbel_r_ppf (1 - 1 / real_of_int T)
                (loc (parametros_gumbel resultado_exemplo))
                (scale (parametros_gumbel resultado_exemplo)))
       (tempos_recorrencia resultado_exemplo)"
  using analise_exemplo
    analise_recorrencia_totais_estimados [OF exemplo_ref(1) analise_exemplo]
  by (rule conjI)

subsection \<open>Sample statistics\<close>

text \<open>
  C3. Whenever the analysis returns, its standard deviation is the sample one, with the
  divisor \<open>n - 1\<close>: the square root of the sum of squared deviations from the mean over
  \<open>n - 1\<close>, and not finite for fewer than two totals; its mean is the sum over \<open>n\<close>. For
  the annual totals 100, 200, 300 the mean is 200 and the standard deviation is 100.
\<close>

theorem analise_recorrencia_desvio_amostral:
  assumes "r < length h" "analise_recorrencia fit r h = (Inr res, h')"
  shows "desvio_padrao res =
           (if length (h ! r) < 2 then None
            else Some (sqrt ((\<Sum>x\<leftarrow>h ! r. (x - sum_list (h ! r) / real (length (h ! r)))\<^sup>2)
                             / (real (length (h ! r)) - 1)))) \<and>
         media res =
           (if h ! r = [] then None else Some (sum_list (h ! r) / real (length (h ! r)))) \<and>
         (h ! r = [100, 200, 300] \<longrightarrow> media res = Some 200 \<and> desvio_padrao res = Some 100)"
proof -
  have d: "desvio_padrao res = np_std 1 (h ! r)" and m: "media res = np_mean (h ! r)"
    using analise_recorrencia_Inr(2,3) [OF assms] by simp_all
  have g: "np_std 1 xs =
      (if length xs < 2 then None
       else Some (sqrt ((\<Sum>x\<leftarrow>xs. (x - sum_list xs / real (length xs))\<^sup>2)
                        / (real (length xs) - 1))))" for xs
    by (auto simp: np_std_def of_nat_diff)
  have c: "np_mean [100, 200, 300] = Some 200" "np_std 1 [100, 200, 300] = Some 100"
    by (simp_all add: np_mean_def np_std_def sqrt_10000)
  show ?thesis
    unfolding d m using g [of "h ! r"] c by (simp add: np_mean_def)
qed

theorem analise_recorrencia_desvio_amostral_witness:
  "(0::nat) < length [[100, 200, 300::real]] \<and>
   analise_recorrencia ajuste_exemplo 0 [[100, 200, 300]] =
     (Inr resultado_exemplo, [[100, 200, 300], [100, 200, 300]]) \<and>
   [[100, 200, 300]] ! 0 = [100, 200, 300::real] \<and>
   media resultado_exemplo = Some 200 \<and> desvio_padrao resultado_exemplo = Some 100"
proof -
  have c: "[[100, 200, 300]] ! 0 = [100, 200, 300::real]" by simp
  from analise_recorrencia_desvio_amostral [OF exemplo_ref(1) analise_exemplo] c
  have "media resultado_exemplo = Some 200 \<and> desvio_padrao resultado_exemplo = Some 100"
    by blast
  with c exemplo_ref(1) analise_exemplo show ?thesis by blast
qed

subsection \<open>Empirical ranking\<close>

text \<open>
  C4. For annual totals of length \<open>n\<close> the ranking yields exactly \<open>n\<close> empirical points;
  their totals are the input rearranged in descending order, and their empirical return
  periods \<open>1 / (m / (n + 1))\<close>, for the ranks \<open>m\<close> from 1 to \<open>n\<close>, strictly decrease
  along the ranks. (The empty sequence is included: it yields no point.)
\<close>

theorem ranking_empirico_decrescente:
  "length (pontos_empiricos xs) = length xs \<and>
   map snd (pontos_empiricos xs) = totais_ordenados xs \<and>
   map fst (pontos_empiricos xs) = T_empirico (length xs) \<and>
   mset (totais_ordenados xs) = mset xs \<and>
   sorted_wrt (\<lambda>a b. b \<le> a) (totais_ordenados xs) \<and>
   T_empirico (length xs) =
     map (\<lambda>m. 1 / (real m / real (length xs + 1))) [1..<length xs + 1] \<and>
   sorted_wrt (\<lambda>a b. b < a) (T_empirico (length xs))"
proof -
  have l: "length (T_empirico (length xs)) = length (totais_ordenados xs)"
    by (simp only: length_T_empirico length_totais_ordenados)
  have p1: "length (pontos_empiricos xs) = length xs"
    by (simp add: pontos_empiricos_def length_T_empirico length_totais_ordenados)
  have p2: "map snd (pontos_empiricos xs) = totais_ordenados xs"
    unfolding pontos_empiricos_def using l by (rule map_snd_zip)
  have p3: "map fst (pontos_empiricos xs) = T_empirico (length xs)"
    unfolding pontos_empiricos_def using l by (rule map_fst_zip)
  have m: "mset (totais_ordenados xs) = mset xs"
    by (simp add: totais_ordenados_def np_sort_def)
  show ?thesis
    using p1 p2 p3 m totais_ordenados_descending [of xs] T_empirico_closed [of "length xs"]
      T_empirico_decreasing [of "length xs"]
    by blast
qed

text \<open>
  C8. For annual totals of length \<open>n\<close> and every rank \<open>m\<close> from 1 to \<open>n\<close>, the plotting
  position of rank \<open>m\<close> is \<open>m / (n + 1)\<close> and lies strictly between 0 and 1.
\<close>

theorem prob_P_entre_0_e_1:
  assumes "1 \<le> m" "m \<le> length xs"
  shows "prob_P (length xs) ! (m - 1) = real m / real (length xs + 1) \<and>
         0 < prob_P (length xs) ! (m - 1) \<and> prob_P (length xs) ! (m - 1) < 1"
proof -
  have i: "m - 1 < length xs" using assms by simp
  have "real (m - 1 + 1) = real m" using assms by simp
  then have e: "prob_P (length xs) ! (m - 1) = real m / real (length xs + 1)"
    using nth_prob_P [OF i] by simp
  have "0 < real m / real (length xs + 1)" "real m / real (length xs + 1) < 1"
    using assms by simp_all
  then show ?thesis using e by simp
qed

theorem prob_P_entre_0_e_1_witness:
  "(1::nat) \<le> 1 \<and> 1 \<le> length [150::real] \<and>
   prob_P (length [150::real]) ! (1 - 1) = 1 / 2 \<and>
   0 < prob_P (length [150::real]) ! (1 - 1) \<and> prob_P (length [150::real]) ! (1 - 1) < 1"
  using prob_P_entre_0_e_1 [of 1 "[150::real]"] by simp

text \<open>
  C9. As exact values, the empirical return periods of the analysis, \<open>1 / P\<close> with
  \<open>P = m / (n + 1)\<close>, and the column of the export step, \<open>1 / arange(1, n + 1) * (n + 1)\<close>,
  are the same sequence for every summary, with \<open>(n + 1) / m\<close> at rank \<open>m\<close>; the sample
  size of the analysis is the length of the column of annual totals of the same summary.
  As computed in doubles the two columns are not always equal: for a summary of four years
  they differ in the last bit at rank 3.
\<close>

theorem T_empirico_export_eq:
  "T_empirico_export resumo = T_empirico (length (totais_anuais_de resumo)) \<and>
   T_empirico (length (totais_anuais_de resumo)) =
     map (\<lambda>m. real (length resumo + 1) / real m) [1..<length resumo + 1]"
  by (simp add: T_empirico_export_def T_empirico_def prob_P_def rank_m_def np_arange_def
        totais_anuais_de_def del: upt_Suc)

theorem T_empirico_export_f64_differs:
  "T_empirico_f64 (length (totais_anuais_de resumo_4_anos)) ! 2
     = Some (7505999378950827 / 2 ^ 52) \<and>
   T_empirico_export_f64 resumo_4_anos ! 2 = Some (7505999378950826 / 2 ^ 52) \<and>
   T_empirico_f64 (length (totais_anuais_de resumo_4_anos))
     \<noteq> T_empirico_export_f64 resumo_4_anos"
proof -
  have l: "length (totais_anuais_de resumo_4_anos) = 4"
    by (simp add: totais_anuais_de_def resumo_4_anos_def)
  have a: "T_empirico_f64 (length (totais_anuais_de resumo_4_anos)) ! 2
             = Some (7505999378950827 / 2 ^ 52)"
    unfolding l by (rule T_empirico_f64_4_3)
  have "(7505999378950827 / 2 ^ 52 :: real) \<noteq> 7505999378950826 / 2 ^ 52" by simp
  then have "T_empirico_f64 (length (totais_anuais_de resumo_4_anos)) ! 2
      \<noteq> T_empirico_export_f64 resumo_4_anos ! 2"
    unfolding a T_empirico_export_f64_4_3 by simp
  then have "T_empirico_f64 (length (totais_anuais_de resumo_4_anos))
      \<noteq> T_empirico_export_f64 resumo_4_anos" by auto
  with a T_empirico_export_f64_4_3 show ?thesis by (intro conjI)
qed

subsection \<open>Monotonicity and round trip of the estimates\<close>







subsection \<open>Annual aggregation\<close>

text \<open>
  C7. Three observations dated (on any day) in the years 2020, 2020 and 2021, with the
  totals 10, 20 and 5, are aggregated into exactly two annual records: year 2020 with
  total 30, maximum 20 and count 2, then year 2021 with total 5, maximum 5 and count 1.
\<close>

theorem resumo_anual_exemplo:
  "resumo_anual
     [\<lparr>Data = Some \<lparr>ano = 2020, mes = m1, dia = d1\<rparr>, Total = Some 10\<rparr>,
      \<lparr>Data = Some \<lparr>ano = 2020, mes = m2, dia = d2\<rparr>, Total = Some 20\<rparr>,
      \<lparr>Data = Some \<lparr>ano = 2021, mes = m3, dia = d3\<rparr>, Total = Some 5\<rparr>]
   = [\<lparr>Ano_r = 2020, Total_Anual = 30, Chuva_Maxima = Some 20, Meses_com_Dados = 2\<rparr>,
      \<lparr>Ano_r = 2021, Total_Anual = 5, Chuva_Maxima = Some 5, Meses_com_Dados = 1\<rparr>]"
  by (simp add: resumo_anual_def chaves_def grupo_def agg_max_def Ano_def
        List.map_filter_simps)

subsection \<open>The input array is only read\<close>

text \<open>
  C10. The analysis leaves every array that existed before the call as it was, the input
  among them: the sort works on a new array. When it returns a result, the entry
  \<open>totais_observados\<close> is the reference it was given, whose contents are unchanged, and
  \<open>n_amostras\<close> is the length of that array.
\<close>

theorem analise_recorrencia_preserva_entrada:
  assumes "r < length h" "analise_recorrencia fit r h = (out, h')"
  shows "h' ! r = h ! r \<and> take (length h) h' = h \<and>
         (\<forall>res. out = Inr res \<longrightarrow>
            totais_observados res = r \<and> n_amostras res = length (h' ! r))"
proof -
  have h': "h' = h @ [np_sort (h ! r)]"
    using analise_recorrencia_heap [of fit r h] assms(2) by simp
  have same: "h' ! r = h ! r" using assms(1) by (simp add: h' nth_append)
  have frame: "take (length h) h' = h" by (simp add: h')
  have "totais_observados res = r \<and> n_amostras res = length (h' ! r)" if "out = Inr res" for res
    using analise_recorrencia_Inr(4,7) [OF assms(1)] assms(2) that same by simp
  then show ?thesis using same frame by blast
qed

theorem analise_recorrencia_preserva_entrada_witness:
  "analise_recorrencia ajuste_exemplo 0 [[300, 100, 200]] =
     (Inr resultado_exemplo, [[300, 100, 200], [100, 200, 300]]) \<and>
   [[300, 100, 200], [100, 200, 300]] ! 0 = [[300, 100, 200::real]] ! 0 \<and>
   totais_observados resultado_exemplo = 0 \<and>
   n_amostras resultado_exemplo = length ([[300, 100, 200], [100, 200, 300::real]] ! 0)"
proof -
  note c = analise_recorrencia_preserva_entrada [OF exemplo_ref(2) analise_exemplo_desordenado]
  from c have 1: "[[300, 100, 200], [100, 200, 300]] ! 0 = [[300, 100, 200::real]] ! 0"
    by (rule conjunct1)
  from c have "totais_observados resultado_exemplo = 0 \<and>
      n_amostras resultado_exemplo = length ([[300, 100, 200], [100, 200, 300::real]] ! 0)"
    by blast
  with 1 analise_exemplo_desordenado show ?thesis by blast
qed

end
